theory Spec2Isabelle
  imports Complex_Main
begin

section \<open>Array elements\<close>

text \<open>
  The module \<^verbatim>\<open>figaro/coordinates.py\<close> computes on numpy arrays of double precision
  numbers. An element is modelled as a real number or one of the special values of
  IEEE-754: the negative zero, the two infinities and NaN. Arithmetic on finite
  values is exact (no rounding, no overflow, no underflow); on the special values it
  follows IEEE-754 and the C library, since the module lets them pass through
  silently instead of raising. \<open>Fin 0\<close> is the positive zero.

  The model therefore gives the value of the formulas that the code evaluates, and
  which exceptions it raises. What rounding, overflow and underflow do to a
  double is outside it: the squares in \<^verbatim>\<open>np.linalg.norm\<close> overflow for a norm above
  about \<open>10\<^sup>1\<^sup>5\<^sup>4\<close> and lose precision below about \<open>10\<^sup>-\<^sup>1\<^sup>5\<^sup>4\<close>, and a computed angle
  carries the rounding error of every operation before it. No statement below
  bounds that error.
\<close>

datatype npfloat = Fin real | NegZero | PInf | NInf | NaN

fun np_isnan :: "npfloat \<Rightarrow> bool" where
  "np_isnan NaN = True"
| "np_isnan _ = False"

fun np_isinf :: "npfloat \<Rightarrow> bool" where
  "np_isinf PInf = True"
| "np_isinf NInf = True"
| "np_isinf _ = False"

fun np_iszero :: "npfloat \<Rightarrow> bool" where
  "np_iszero (Fin x) = (x = 0)"
| "np_iszero NegZero = True"
| "np_iszero _ = False"

fun np_signbit :: "npfloat \<Rightarrow> bool" where
  "np_signbit (Fin x) = (x < 0)"
| "np_signbit NegZero = True"
| "np_signbit NInf = True"
| "np_signbit _ = False"

text \<open>The real number a finite element stands for (0 for both zeros).\<close>

fun val :: "npfloat \<Rightarrow> real" where
  "val (Fin x) = x"
| "val _ = 0"

definition signed_zero :: "bool \<Rightarrow> npfloat" where
  "signed_zero negative = (if negative then NegZero else Fin 0)"

definition signed_inf :: "bool \<Rightarrow> npfloat" where
  "signed_inf negative = (if negative then NInf else PInf)"

text \<open>\<^verbatim>\<open>a * b\<close>: the sign of a zero or infinite product is the exclusive or of the signs.\<close>

definition np_mul :: "npfloat \<Rightarrow> npfloat \<Rightarrow> npfloat" where
  "np_mul a b =
     (if np_isnan a \<or> np_isnan b then NaN
      else if (np_isinf a \<and> np_iszero b) \<or> (np_iszero a \<and> np_isinf b) then NaN
      else if np_isinf a \<or> np_isinf b then signed_inf (np_signbit a \<noteq> np_signbit b)
      else if val a * val b = 0 then signed_zero (np_signbit a \<noteq> np_signbit b)
      else Fin (val a * val b))"

text \<open>
  \<^verbatim>\<open>a / b\<close> on array elements: a division by zero raises nothing, it gives an
  infinity (NaN for \<^verbatim>\<open>0/0\<close>) and a warning.
\<close>

definition np_div :: "npfloat \<Rightarrow> npfloat \<Rightarrow> npfloat" where
  "np_div a b =
     (if np_isnan a \<or> np_isnan b then NaN
      else if (np_isinf a \<and> np_isinf b) \<or> (np_iszero a \<and> np_iszero b) then NaN
      else if np_isinf a \<or> np_iszero b then signed_inf (np_signbit a \<noteq> np_signbit b)
      else if np_isinf b \<or> np_iszero a then signed_zero (np_signbit a \<noteq> np_signbit b)
      else Fin (val a / val b))"

definition np_add :: "npfloat \<Rightarrow> npfloat \<Rightarrow> npfloat" where
  "np_add a b =
     (if np_isnan a \<or> np_isnan b then NaN
      else if np_isinf a then (if np_isinf b \<and> a \<noteq> b then NaN else a)
      else if np_isinf b then b
      else if val a + val b = 0 then
        (if a = NegZero \<and> b = NegZero then NegZero else Fin 0)
      else Fin (val a + val b))"

text \<open>\<^verbatim>\<open>a < b\<close>: false whenever an operand is NaN; the two zeros are equal.\<close>

fun np_less :: "npfloat \<Rightarrow> npfloat \<Rightarrow> bool" where
  "np_less NaN _ = False"
| "np_less _ NaN = False"
| "np_less PInf _ = False"
| "np_less _ NInf = False"
| "np_less NInf _ = True"
| "np_less _ PInf = True"
| "np_less a b = (val a < val b)"

fun np_sqrt :: "npfloat \<Rightarrow> npfloat" where
  "np_sqrt (Fin x) = (if x < 0 then NaN else Fin (sqrt x))"
| "np_sqrt NegZero = NegZero"
| "np_sqrt PInf = PInf"
| "np_sqrt NInf = NaN"
| "np_sqrt NaN = NaN"

fun np_sin :: "npfloat \<Rightarrow> npfloat" where
  "np_sin (Fin x) = Fin (sin x)"
| "np_sin NegZero = NegZero"
| "np_sin _ = NaN"

fun np_cos :: "npfloat \<Rightarrow> npfloat" where
  "np_cos (Fin x) = Fin (cos x)"
| "np_cos NegZero = Fin 1"
| "np_cos _ = NaN"

fun np_arcsin :: "npfloat \<Rightarrow> npfloat" where
  "np_arcsin (Fin x) = (if \<bar>x\<bar> \<le> 1 then Fin (arcsin x) else NaN)"
| "np_arcsin NegZero = NegZero"
| "np_arcsin _ = NaN"

text \<open>
  The two-argument arctangent on real numbers, with numpy's argument order
  \<^verbatim>\<open>arctan2(y, x)\<close>: the angle in \<open>(-\<pi>, \<pi>]\<close> of the point \<open>(x, y)\<close>, and 0 at the origin.
\<close>

definition arctan2 :: "real \<Rightarrow> real \<Rightarrow> real" where
  "arctan2 y x =
     (if 0 < x then arctan (y / x)
      else if x < 0 then (if 0 \<le> y then arctan (y / x) + pi else arctan (y / x) - pi)
      else if 0 < y then pi / 2
      else if y < 0 then - (pi / 2)
      else 0)"

text \<open>\<^verbatim>\<open>np.arctan2\<close> on array elements, with the special cases of C's \<^verbatim>\<open>atan2\<close>.\<close>

definition np_arctan2 :: "npfloat \<Rightarrow> npfloat \<Rightarrow> npfloat" where
  "np_arctan2 y x =
     (if np_isnan y \<or> np_isnan x then NaN
      else if np_iszero y then
        (if np_signbit x then (if np_signbit y then Fin (- pi) else Fin pi) else y)
      else if np_isinf y then
        (if np_isinf x then
           (if np_signbit x
            then (if np_signbit y then Fin (- (3 * pi / 4)) else Fin (3 * pi / 4))
            else (if np_signbit y then Fin (- (pi / 4)) else Fin (pi / 4)))
         else (if np_signbit y then Fin (- (pi / 2)) else Fin (pi / 2)))
      else if np_isinf x then
        (if np_signbit x then (if np_signbit y then Fin (- pi) else Fin pi)
         else signed_zero (np_signbit y))
      else Fin (arctan2 (val y) (val x)))"

section \<open>Arrays and exceptions\<close>

text \<open>
  An array of dimension 0, 1 or 2. \<open>A2 c rows\<close> has the shape \<open>(length rows, c)\<close>:
  the number of columns is kept, since an array of shape \<open>(0, 3)\<close> has no row to
  read it from. Arrays of three or more dimensions are not modelled (the column
  index \<^verbatim>\<open>a[:,k]\<close> is defined on them too), and no statement below is about them.
\<close>

datatype ndarray = A0 npfloat | A1 "npfloat list" | A2 nat "npfloat list list"

text \<open>A numpy array is rectangular: every row of \<open>A2 c rows\<close> has \<open>c\<close> elements.\<close>

fun wellformed :: "ndarray \<Rightarrow> bool" where
  "wellformed (A2 c rows) = list_all (\<lambda>row. length row = c) rows"
| "wellformed _ = True"

datatype error = IndexError | AxisError | TypeError | ValueError

definition bindE :: "error + 'a \<Rightarrow> ('a \<Rightarrow> error + 'b) \<Rightarrow> error + 'b" where
  "bindE m f = (case m of Inl e \<Rightarrow> Inl e | Inr x \<Rightarrow> f x)"

text \<open>\<^verbatim>\<open>np.atleast_2d\<close>: a scalar becomes a 1 x 1 array, a vector of length n a 1 x n array.\<close>

fun atleast_2d :: "ndarray \<Rightarrow> ndarray" where
  "atleast_2d (A0 x) = A2 1 [[x]]"
| "atleast_2d (A1 xs) = A2 (length xs) [xs]"
| "atleast_2d (A2 c rows) = A2 c rows"

text \<open>
  \<^verbatim>\<open>a[:,k]\<close> for a literal \<open>k \<ge> 0\<close>: IndexError on an array with fewer than two
  dimensions (too many indices) and on a column out of bounds, also when the array
  has no row.
\<close>

fun col :: "ndarray \<Rightarrow> nat \<Rightarrow> error + npfloat list" where
  "col (A2 c rows) k = (if k < c then Inr (map (\<lambda>row. row ! k) rows) else Inl IndexError)"
| "col _ k = Inl IndexError"

text \<open>
  \<^verbatim>\<open>np.linalg.norm\<close> of one vector: the square root of the sum of the squares
  (\<^verbatim>\<open>sqrt(x.dot(x))\<close>, and \<^verbatim>\<open>sqrt(add.reduce(x*x, axis))\<close> along an axis).
\<close>

definition linalg_norm :: "npfloat list \<Rightarrow> npfloat" where
  "linalg_norm v = np_sqrt (foldl np_add (Fin 0) (map (\<lambda>x. np_mul x x) v))"

text \<open>\<^verbatim>\<open>np.linalg.norm(a, axis = -1)\<close>: a 0-dimensional array has no axis.\<close>

fun norm_last_axis :: "ndarray \<Rightarrow> error + ndarray" where
  "norm_last_axis (A0 x) = Inl AxisError"
| "norm_last_axis (A1 xs) = Inr (A0 (linalg_norm xs))"
| "norm_last_axis (A2 c rows) = Inr (A1 (map linalg_norm rows))"

text \<open>
  \<^verbatim>\<open>np.array([v/np.linalg.norm(v) for v in vector])\<close>. Iterating over a vector gives
  its scalars, over a 2-dimensional array its rows. The array is rebuilt from a
  Python list, so with no row the result is the empty 1-dimensional array: the
  number of columns is lost.
\<close>

fun unit_vectors :: "ndarray \<Rightarrow> error + ndarray" where
  "unit_vectors (A0 x) = Inl TypeError"
| "unit_vectors (A1 xs) = Inr (A1 (map (\<lambda>v. np_div v (linalg_norm [v])) xs))"
| "unit_vectors (A2 c rows) =
     Inr (if rows = [] then A1 []
          else A2 c (map (\<lambda>v. map (\<lambda>x. np_div x (linalg_norm v)) v) rows))"

text \<open>
  \<^verbatim>\<open>np.array([a, b, c]).T\<close>: three vectors of one length n become the columns of an
  n x 3 array, three scalars a vector. The functions of the module reach no other
  combination; numpy refuses arrays of different shapes with a ValueError.
\<close>

fun array3_T :: "ndarray \<Rightarrow> ndarray \<Rightarrow> ndarray \<Rightarrow> error + ndarray" where
  "array3_T (A1 a) (A1 b) (A1 c) =
     (if length a = length b \<and> length b = length c
      then Inr (A2 3 (map (\<lambda>(x, y, z). [x, y, z]) (zip a (zip b c))))
      else Inl ValueError)"
| "array3_T (A0 a) (A0 b) (A0 c) = Inr (A1 [a, b, c])"
| "array3_T _ _ _ = Inl ValueError"

text \<open>A function applied to every element (\<^verbatim>\<open>1/detJ\<close> is \<open>amap (np_div (Fin 1))\<close>).\<close>

fun amap :: "(npfloat \<Rightarrow> npfloat) \<Rightarrow> ndarray \<Rightarrow> ndarray" where
  "amap f (A0 x) = A0 (f x)"
| "amap f (A1 xs) = A1 (map f xs)"
| "amap f (A2 c rows) = A2 c (map (map f) rows)"

section \<open>The functions of \<^verbatim>\<open>coordinates.py\<close>\<close>

text \<open>
  \<^verbatim>\<open>
  r = np.linalg.norm(vector, axis = -1)
  unit = np.array([v/np.linalg.norm(v) for v in vector])
  theta = np.arcsin(unit[:,2])
  phi = np.arctan2(unit[:,0], unit[:,1])
  phi[phi<0] += 2*np.pi
  coord = np.array([r,theta,phi]).T
  \<close>
\<close>

definition cartesian_to_spherical :: "ndarray \<Rightarrow> error + ndarray" where
  "cartesian_to_spherical vector =
     bindE (norm_last_axis vector) (\<lambda>r.
     bindE (unit_vectors vector) (\<lambda>unit.
     bindE (col unit 2) (\<lambda>unit2.
     let theta = map np_arcsin unit2 in
     bindE (col unit 0) (\<lambda>unit0.
     bindE (col unit 1) (\<lambda>unit1.
     let phi = map2 np_arctan2 unit0 unit1;
         phi = map (\<lambda>p. if np_less p (Fin 0) then np_add p (Fin (2 * pi)) else p) phi
     in array3_T r (A1 theta) (A1 phi))))))"

text \<open>
  \<^verbatim>\<open>
  cos_theta = np.cos(vector[:,1])
  x = vector[:,2] * np.sin(vector[:,0]) * cos_theta
  y = vector[:,2] * np.cos(vector[:,0]) * cos_theta
  z = vector[:,2] * np.sin(vector[:,1])
  return np.array([x,y,z]).T
  \<close>
\<close>

definition spherical_to_cartesian :: "ndarray \<Rightarrow> error + ndarray" where
  "spherical_to_cartesian vector =
     bindE (col vector 1) (\<lambda>v1.
     let cos_theta = map np_cos v1 in
     bindE (col vector 2) (\<lambda>v2.
     bindE (col vector 0) (\<lambda>v0.
     let x = map2 np_mul (map2 np_mul v2 (map np_sin v0)) cos_theta;
         y = map2 np_mul (map2 np_mul v2 (map np_cos v0)) cos_theta;
         z = map2 np_mul v2 (map np_sin v1)
     in array3_T (A1 x) (A1 y) (A1 z))))"

definition celestial_to_cartesian :: "ndarray \<Rightarrow> error + ndarray" where
  "celestial_to_cartesian celestial_vect =
     spherical_to_cartesian (atleast_2d celestial_vect)"

text \<open>
  \<^verbatim>\<open>
  cartesian_vect = np.atleast_2d(cartesian_vect)
  spherical_vect = cartesian_to_spherical(cartesian_vect)
  D   = spherical_vect[:,0]
  dec = spherical_vect[:,1]
  ra  = spherical_vect[:,2]
  return np.array([ra, dec, D]).T
  \<close>
\<close>

definition cartesian_to_celestial :: "ndarray \<Rightarrow> error + ndarray" where
  "cartesian_to_celestial cartesian_vect =
     bindE (cartesian_to_spherical (atleast_2d cartesian_vect)) (\<lambda>spherical_vect.
     bindE (col spherical_vect 0) (\<lambda>D.
     bindE (col spherical_vect 1) (\<lambda>dec.
     bindE (col spherical_vect 2) (\<lambda>ra.
     array3_T (A1 ra) (A1 dec) (A1 D)))))"

text \<open>
  \<^verbatim>\<open>
  d = celestial_vect[:,2]
  theta = celestial_vect[:,1]
  return d*d*np.cos(theta)
  \<close>
\<close>

definition Jacobian_in_celestial :: "ndarray \<Rightarrow> error + ndarray" where
  "Jacobian_in_celestial celestial_vect =
     bindE (col celestial_vect 2) (\<lambda>d.
     bindE (col celestial_vect 1) (\<lambda>theta.
     Inr (A1 (map2 np_mul (map2 np_mul d d) (map np_cos theta)))))"

definition Jacobian :: "ndarray \<Rightarrow> error + ndarray" where
  "Jacobian cartesian_vect =
     bindE (cartesian_to_celestial (atleast_2d cartesian_vect)) Jacobian_in_celestial"

definition inv_Jacobian :: "ndarray \<Rightarrow> error + ndarray" where
  "inv_Jacobian celestial_vect =
     bindE (Jacobian_in_celestial (atleast_2d celestial_vect)) (\<lambda>detJ.
     Inr (amap (np_div (Fin 1)) detJ))"

section \<open>Row-wise readings and the vocabulary of the claims\<close>

text \<open>
  What each function computes from one row of a 2-dimensional array. The functions
  above work on whole columns, as the source does; the lemmas below show that they
  agree with these row functions.
\<close>

definition spherical_row :: "npfloat list \<Rightarrow> npfloat list" where
  "spherical_row v =
     (let n = linalg_norm v;
          p = np_arctan2 (np_div (v ! 0) n) (np_div (v ! 1) n)
      in [n, np_arcsin (np_div (v ! 2) n),
          if np_less p (Fin 0) then np_add p (Fin (2 * pi)) else p])"

definition cartesian_row :: "npfloat list \<Rightarrow> npfloat list" where
  "cartesian_row v =
     (let cos_theta = np_cos (v ! 1)
      in [np_mul (np_mul (v ! 2) (np_sin (v ! 0))) cos_theta,
          np_mul (np_mul (v ! 2) (np_cos (v ! 0))) cos_theta,
          np_mul (v ! 2) (np_sin (v ! 1))])"

definition celestial_row :: "npfloat list \<Rightarrow> npfloat list" where
  "celestial_row v = (let s = spherical_row v in [s ! 2, s ! 1, s ! 0])"

definition jacobian_row :: "npfloat list \<Rightarrow> npfloat" where
  "jacobian_row v = np_mul (np_mul (v ! 2) (v ! 2)) (np_cos (v ! 1))"

text \<open>
  A vector of three real numbers as a row of array elements, and a list of such
  vectors as an array of shape \<open>(N, 3)\<close>.
\<close>

definition vec3 :: "real \<times> real \<times> real \<Rightarrow> npfloat list" where
  "vec3 = (\<lambda>(a, b, c). [Fin a, Fin b, Fin c])"

definition batch3 :: "(real \<times> real \<times> real) list \<Rightarrow> ndarray" where
  "batch3 vs = A2 3 (map vec3 vs)"


text \<open>
  The algorithm of \<^verbatim>\<open>cartesian_to_spherical\<close> as the specification words it, for one
  row of real numbers: r is the Euclidean norm, unit the row divided by its norm,
  theta the arcsine of unit.z, phi \<^verbatim>\<open>atan2(unit.x, unit.y)\<close> with \<open>2\<pi>\<close> added when
  negative; the result is \<open>[r, theta, phi]\<close>.
\<close>

definition spec_spherical_row :: "real \<times> real \<times> real \<Rightarrow> real \<times> real \<times> real" where
  "spec_spherical_row = (\<lambda>(x, y, z).
     let r = sqrt (x * x + y * y + z * z);
         unit_x = x / r; unit_y = y / r; unit_z = z / r;
         theta = arcsin unit_z;
         phi = arctan2 unit_x unit_y
     in (r, theta, if phi < 0 then phi + 2 * pi else phi))"

text \<open>The same row in the order \<open>[ra, dec, D] = [phi, theta, r]\<close>.\<close>

definition spec_celestial_row :: "real \<times> real \<times> real \<Rightarrow> real \<times> real \<times> real" where
  "spec_celestial_row v = (case spec_spherical_row v of (r, theta, phi) \<Rightarrow> (phi, theta, r))"



text \<open>The real number of a finite element; none for an infinity and for NaN.\<close>

fun number :: "npfloat \<Rightarrow> real option" where
  "number (Fin x) = Some x"
| "number NegZero = Some 0"
| "number _ = None"


text \<open>
  Row \<open>i\<close> of what \<open>f\<close> returns on a batch is the row that \<open>f\<close> returns on row \<open>i\<close>
  alone, as a 1 x 3 batch: for a function with a 2-dimensional result, and for one
  with one value for each row.
\<close>

definition rowwise2 :: "(ndarray \<Rightarrow> error + ndarray) \<Rightarrow> npfloat list list \<Rightarrow> nat \<Rightarrow> bool" where
  "rowwise2 f rows i =
     (\<exists>out. f (A2 3 rows) = Inr (A2 3 out) \<and> length out = length rows
        \<and> f (A2 3 [rows ! i]) = Inr (A2 3 [out ! i]))"

definition rowwise1 :: "(ndarray \<Rightarrow> error + ndarray) \<Rightarrow> npfloat list list \<Rightarrow> nat \<Rightarrow> bool" where
  "rowwise1 f rows i =
     (\<exists>out. f (A2 3 rows) = Inr (A1 out) \<and> length out = length rows
        \<and> f (A2 3 [rows ! i]) = Inr (A1 [out ! i]))"

section \<open>Arithmetic on finite elements\<close>

text \<open>
  On finite elements the operations are the operations on real numbers, up to the sign
  of a zero result; the square of an element and the norm of a row of real numbers
  are never the negative zero.
\<close>

lemma np_mul_Fin:
  "(a = 0 \<longrightarrow> 0 \<le> b) \<Longrightarrow> (b = 0 \<longrightarrow> 0 \<le> a) \<Longrightarrow> np_mul (Fin a) (Fin b) = Fin (a * b)"
  by (auto simp: np_mul_def signed_zero_def)

lemma np_mul_self: "np_mul (Fin a) (Fin a) = Fin (a * a)"
  by (simp add: np_mul_def signed_zero_def)

lemma number_mul_Fin: "number (np_mul (Fin a) (Fin b)) = Some (a * b)"
  by (simp add: np_mul_def signed_zero_def)

lemma np_add_Fin: "np_add (Fin a) (Fin b) = Fin (a + b)"
  by (simp add: np_add_def)

lemma np_div_Fin: "0 < b \<Longrightarrow> np_div (Fin a) (Fin b) = Fin (a / b)"
  by (simp add: np_div_def signed_zero_def)

lemma np_arctan2_Fin: "np_arctan2 (Fin y) (Fin x) = Fin (arctan2 y x)"
  by (auto simp: np_arctan2_def arctan2_def)

lemma sumsq_nonneg: "\<not> x * x + y * y + z * z < (0::real)"
  by (simp add: not_less add_nonneg_nonneg)

lemma linalg_norm3:
  "linalg_norm [Fin x, Fin y, Fin z] = Fin (sqrt (x * x + y * y + z * z))"
  by (simp add: linalg_norm_def np_mul_self np_add_Fin sumsq_nonneg)

lemma norm_pos:
  assumes "(x, y, z) \<noteq> (0, 0, 0::real)"
  shows "0 < sqrt (x * x + y * y + z * z)"
proof -
  have "x \<noteq> 0 \<or> y \<noteq> 0 \<or> z \<noteq> 0" using assms by simp
  then have "0 < x * x + y * y + z * z"
    by (metis add_pos_nonneg add_nonneg_pos add_nonneg_nonneg zero_le_square
        mult_eq_0_iff less_le)
  then show ?thesis by simp
qed


lemma abs_le_norm: "\<bar>z\<bar> \<le> sqrt (x * x + y * y + z * z)"
proof -
  have "sqrt (z * z) \<le> sqrt (x * x + y * y + z * z)"
    by (rule real_sqrt_le_mono) (simp add: add_nonneg_nonneg)
  then show ?thesis by simp
qed

lemma unit_z_range:
  assumes "(x, y, z) \<noteq> (0, 0, 0::real)"
  shows "\<bar>z / sqrt (x * x + y * y + z * z)\<bar> \<le> 1"
  using norm_pos [OF assms] abs_le_norm [of z x y] by simp



section \<open>The two-argument arctangent\<close>

text \<open>
  The range of \<open>arctan2\<close>, and its sine and cosine away from the origin: the point
  \<open>(x, y)\<close> divided by its distance to the origin.
\<close>

lemma arctan2_bounds: "- pi < arctan2 y x \<and> arctan2 y x \<le> pi"
proof -
  have b: "- (pi / 2) < arctan (y / x) \<and> arctan (y / x) < pi / 2"
    by (rule arctan_bounded)
  consider "0 < x" | "x < 0" "0 \<le> y" | "x < 0" "y < 0" | "x = 0" "0 < y" | "x = 0" "y < 0"
    | "x = 0" "y = 0"
    by linarith
  then show ?thesis
  proof cases
    case 1
    then have "arctan2 y x = arctan (y / x)" by (simp add: arctan2_def)
    then show ?thesis using b pi_gt_zero by linarith
  next
    case 2
    then have "y / x \<le> 0" by (simp add: divide_nonneg_neg)
    then have "arctan (y / x) \<le> 0" by (simp add: arctan_le_zero_iff)
    moreover have "arctan2 y x = arctan (y / x) + pi" using 2 by (simp add: arctan2_def)
    ultimately show ?thesis using b pi_gt_zero by linarith
  next
    case 3
    then have "0 < y / x" by (simp add: divide_neg_neg)
    then have "0 < arctan (y / x)" by (simp add: zero_less_arctan_iff)
    moreover have "arctan2 y x = arctan (y / x) - pi" using 3 by (simp add: arctan2_def)
    ultimately show ?thesis using b pi_gt_zero by linarith
  next
    case 4
    then have "arctan2 y x = pi / 2" by (simp add: arctan2_def)
    then show ?thesis using pi_gt_zero by linarith
  next
    case 5
    then have "arctan2 y x = - (pi / 2)" by (simp add: arctan2_def)
    then show ?thesis using pi_gt_zero by linarith
  next
    case 6
    then have "arctan2 y x = 0" by (simp add: arctan2_def)
    then show ?thesis using pi_gt_zero by linarith
  qed
qed

lemma sqrt_one_plus_sq:
  assumes "x \<noteq> (0::real)"
  shows "sqrt (1 + (y / x)\<^sup>2) = sqrt (x * x + y * y) / \<bar>x\<bar>"
proof -
  have "1 + (y / x)\<^sup>2 = (x * x + y * y) / (x\<^sup>2)"
    using assms by (simp add: field_simps power2_eq_square)
  then have "sqrt (1 + (y / x)\<^sup>2) = sqrt (x * x + y * y) / sqrt (x\<^sup>2)"
    by (simp add: real_sqrt_divide)
  then show ?thesis by simp
qed

lemma sin_arctan_div:
  assumes "x \<noteq> (0::real)"
  shows "sin (arctan (y / x)) = (y / x) * \<bar>x\<bar> / sqrt (x * x + y * y)"
  by (simp add: sin_arctan sqrt_one_plus_sq [OF assms])

lemma cos_arctan_div:
  assumes "x \<noteq> (0::real)"
  shows "cos (arctan (y / x)) = \<bar>x\<bar> / sqrt (x * x + y * y)"
  by (simp add: cos_arctan sqrt_one_plus_sq [OF assms])

lemma sin_arctan2:
  assumes "x \<noteq> 0 \<or> y \<noteq> 0"
  shows "sin (arctan2 y x) = y / sqrt (x * x + y * y)"
proof -
  consider "0 < x" | "x < 0" "0 \<le> y" | "x < 0" "y < 0" | "x = 0" "0 < y" | "x = 0" "y < 0"
    using assms by linarith
  then show ?thesis
  proof cases
    case 1
    then show ?thesis by (simp add: arctan2_def sin_arctan_div)
  next
    case 2
    then show ?thesis by (simp add: arctan2_def sin_arctan_div)
  next
    case 3
    then show ?thesis by (simp add: arctan2_def sin_arctan_div)
  next
    case 4
    then show ?thesis by (simp add: arctan2_def)
  next
    case 5
    then show ?thesis by (simp add: arctan2_def)
  qed
qed

lemma cos_arctan2:
  assumes "x \<noteq> 0 \<or> y \<noteq> 0"
  shows "cos (arctan2 y x) = x / sqrt (x * x + y * y)"
proof -
  consider "0 < x" | "x < 0" "0 \<le> y" | "x < 0" "y < 0" | "x = 0" "0 < y" | "x = 0" "y < 0"
    using assms by linarith
  then show ?thesis
  proof cases
    case 1
    then show ?thesis by (simp add: arctan2_def cos_arctan_div)
  next
    case 2
    then show ?thesis by (simp add: arctan2_def cos_arctan_div)
  next
    case 3
    then show ?thesis by (simp add: arctan2_def cos_arctan_div)
  next
    case 4
    then show ?thesis by (simp add: arctan2_def)
  next
    case 5
    then show ?thesis by (simp add: arctan2_def)
  qed
qed

lemma sin_wrap: "sin (if p < 0 then p + 2 * pi else p) = sin p"
  by simp

lemma cos_wrap: "cos (if p < 0 then p + 2 * pi else p) = cos p"
  by simp

lemma sqrt_div_sq:
  assumes "0 < (r::real)"
  shows "sqrt (b / r * (b / r) + a / r * (a / r)) = sqrt (a * a + b * b) / r"
proof -
  have "b / r * (b / r) + a / r * (a / r) = (a * a + b * b) / (r * r)"
    by (simp add: add_divide_distrib)
  then have "sqrt (b / r * (b / r) + a / r * (a / r)) = sqrt (a * a + b * b) / sqrt (r * r)"
    by (simp add: real_sqrt_divide)
  then show ?thesis using assms by simp
qed

section \<open>The spherical coordinates of a non-zero vector\<close>

text \<open>
  For a non-zero vector \<open>(x, y, z)\<close> with spherical coordinates \<open>(r, theta, phi)\<close>, the
  formulas of \<^verbatim>\<open>spherical_to_cartesian\<close> give the vector back, and no product in them
  is a zero with a negative factor. The angles lie in their ranges.
\<close>

lemma roundtrip_real:
  fixes x y z :: real
  assumes nz: "(x, y, z) \<noteq> (0, 0, 0)"
    and s: "spec_spherical_row (x, y, z) = (r, theta, phi)"
  shows "r * sin phi * cos theta = x" and "r * cos phi * cos theta = y"
    and "r * sin theta = z" and "0 < r" and "0 \<le> cos theta"
    and "cos theta = 0 \<longrightarrow> sin phi = 0 \<and> cos phi = 1"
proof -
  define rho where "rho = sqrt (x * x + y * y)"
  have r: "r = sqrt (x * x + y * y + z * z)"
    using s by (auto simp: spec_spherical_row_def Let_def)
  have theta: "theta = arcsin (z / r)"
    using s by (auto simp: spec_spherical_row_def Let_def)
  have phi: "phi = (if arctan2 (x / r) (y / r) < 0 then arctan2 (x / r) (y / r) + 2 * pi
      else arctan2 (x / r) (y / r))"
    using s by (auto simp: spec_spherical_row_def Let_def)
  show rpos: "0 < r" unfolding r by (rule norm_pos [OF nz])
  have t: "\<bar>z / r\<bar> \<le> 1" unfolding r by (rule unit_z_range [OF nz])
  then have t': "- 1 \<le> z / r" "z / r \<le> 1" by linarith+
  have sin_theta: "sin theta = z / r" unfolding theta using t' by (rule sin_arcsin)
  show "r * sin theta = z" using rpos by (simp add: sin_theta)
  have "1 - (z / r)\<^sup>2 = (r * r - z * z) / (r * r)"
    using rpos by (simp add: field_simps power2_eq_square)
  moreover have "r * r = x * x + y * y + z * z"
    unfolding r by (simp add: add_nonneg_nonneg)
  ultimately have "1 - (z / r)\<^sup>2 = (x * x + y * y) / (r * r)" by simp
  then have "sqrt (1 - (z / r)\<^sup>2) = rho / sqrt (r * r)"
    by (simp add: real_sqrt_divide rho_def)
  then have cos_theta: "cos theta = rho / r"
    unfolding theta using rpos t' by (simp add: cos_arcsin)
  have rho0: "0 \<le> rho" by (simp add: rho_def add_nonneg_nonneg)
  show "0 \<le> cos theta" using rho0 rpos by (simp add: cos_theta)
  have sp: "sin phi = sin (arctan2 (x / r) (y / r))" unfolding phi by (rule sin_wrap)
  have cp: "cos phi = cos (arctan2 (x / r) (y / r))" unfolding phi by (rule cos_wrap)
  have all: "r * sin phi * cos theta = x \<and> r * cos phi * cos theta = y
       \<and> (cos theta = 0 \<longrightarrow> sin phi = 0 \<and> cos phi = 1)"
    proof (cases "x = 0 \<and> y = 0")
      case True
      then show ?thesis by (simp add: sp cp cos_theta rho_def arctan2_def)
    next
      case False
      then have "0 < x * x + y * y"
        by (metis add_pos_nonneg add_nonneg_pos zero_le_square mult_eq_0_iff less_le)
      then have rhopos: "0 < rho" by (simp add: rho_def)
      have ne: "y / r \<noteq> 0 \<or> x / r \<noteq> 0" using False rpos by auto
      have d: "sqrt (y / r * (y / r) + x / r * (x / r)) = rho / r"
        unfolding rho_def by (rule sqrt_div_sq [OF rpos])
      have "sin phi = x / r / (rho / r)"
        unfolding sp using sin_arctan2 [OF ne] d by simp
      then have s1: "sin phi = x / rho" using rpos by simp
      have "cos phi = y / r / (rho / r)"
        unfolding cp using cos_arctan2 [OF ne] d by simp
      then have c1: "cos phi = y / rho" using rpos by simp
      show ?thesis using rpos rhopos by (simp add: s1 c1 cos_theta)
    qed
  from all show "r * sin phi * cos theta = x" by simp
  from all show "r * cos phi * cos theta = y" by simp
  from all show "cos theta = 0 \<longrightarrow> sin phi = 0 \<and> cos phi = 1" by simp
qed

lemma spec_spherical_row_bounds:
  assumes "v \<noteq> (0, 0, 0)" and "spec_spherical_row v = (r, theta, phi)"
  shows "0 \<le> phi \<and> phi < 2 * pi \<and> - (pi / 2) \<le> theta \<and> theta \<le> pi / 2"
proof -
  obtain x y z where v: "v = (x, y, z)" by (cases v) auto
  have nz: "(x, y, z) \<noteq> (0, 0, 0)" using assms(1) v by simp
  define n where "n = sqrt (x * x + y * y + z * z)"
  have t: "\<bar>z / n\<bar> \<le> 1" unfolding n_def by (rule unit_z_range [OF nz])
  have theta: "theta = arcsin (z / n)"
    using assms(2) by (auto simp: v n_def spec_spherical_row_def Let_def)
  have phi: "phi = (if arctan2 (x / n) (y / n) < 0 then arctan2 (x / n) (y / n) + 2 * pi
      else arctan2 (x / n) (y / n))"
    using assms(2) by (auto simp: v n_def spec_spherical_row_def Let_def)
  have "- 1 \<le> z / n" "z / n \<le> 1" using t by linarith+
  then have "- (pi / 2) \<le> theta \<and> theta \<le> pi / 2"
    unfolding theta by (rule arcsin_bounded)
  moreover have "0 \<le> phi \<and> phi < 2 * pi"
  proof (cases "arctan2 (x / n) (y / n) < 0")
    case True
    then have "phi = arctan2 (x / n) (y / n) + 2 * pi" by (simp add: phi)
    then show ?thesis
      using arctan2_bounds [of "x / n" "y / n"] pi_gt_zero True by linarith
  next
    case False
    then have "phi = arctan2 (x / n) (y / n)" by (simp add: phi)
    then show ?thesis
      using arctan2_bounds [of "x / n" "y / n"] pi_gt_zero False by linarith
  qed
  ultimately show ?thesis by simp
qed


lemma spec_spherical_row_001: "spec_spherical_row (0, 0, 1) = (1, pi / 2, 0)"
  by (simp add: spec_spherical_row_def arctan2_def)


section \<open>The functions, row by row\<close>

text \<open>
  On a 2-dimensional array with at least 3 columns each function maps its row
  function over the rows; \<^verbatim>\<open>cartesian_to_spherical\<close> and the functions that call it
  need a row, since the array of unit vectors is rebuilt from a Python list.
\<close>

lemma zip3_map:
  "map (\<lambda>(x, y, z). [x, y, z])
     (zip (map f xs) (zip (map g xs) (map w (map2 h (map a xs) (map b xs)))))
     = map (\<lambda>v. [f v, g v, w (h (a v) (b v))]) xs"
  by (induction xs) simp_all

lemma map2_same: "map2 h (map f xs) (map g xs) = map (\<lambda>v. h (f v) (g v)) xs"
  by (induction xs) simp_all

lemma zip3_same:
  "map (\<lambda>(x, y, z). [x, y, z]) (zip (map f xs) (zip (map g xs) (map h xs)))
     = map (\<lambda>v. [f v, g v, h v]) xs"
  by (induction xs) simp_all



lemma atleast_2d_3: "atleast_2d (A1 [a, b, c]) = A2 3 [[a, b, c]]"
  by (simp add: numeral_3_eq_3)

lemma cartesian_to_spherical_rows:
  assumes "rows \<noteq> []" and "3 \<le> c" and "list_all (\<lambda>row. length row = c) rows"
  shows "cartesian_to_spherical (A2 c rows) = Inr (A2 3 (map spherical_row rows))"
proof -
  have len: "\<And>v. v \<in> set rows \<Longrightarrow> length v = c"
    using assms(3) by (simp add: list_all_iff)
  let ?unit = "map (\<lambda>v. map (\<lambda>x. np_div x (linalg_norm v)) v) rows"
  have u: "unit_vectors (A2 c rows) = Inr (A2 c ?unit)"
    using assms(1) by simp
  have c: "col (A2 c ?unit) k = Inr (map (\<lambda>v. np_div (v ! k) (linalg_norm v)) rows)"
    if "k < 3" for k
    using that assms(2) len by (simp add: comp_def)
  have "cartesian_to_spherical (A2 c rows) =
    array3_T (A1 (map linalg_norm rows))
      (A1 (map np_arcsin (map (\<lambda>v. np_div (v ! 2) (linalg_norm v)) rows)))
      (A1 (map (\<lambda>p. if np_less p (Fin 0) then np_add p (Fin (2 * pi)) else p)
         (map2 np_arctan2 (map (\<lambda>v. np_div (v ! 0) (linalg_norm v)) rows)
            (map (\<lambda>v. np_div (v ! 1) (linalg_norm v)) rows))))"
    unfolding cartesian_to_spherical_def
    by (simp only: norm_last_axis.simps u c [of 0] c [of 1] c [of 2] bindE_def sum.case
        Let_def)
  also have "\<dots> = Inr (A2 3 (map spherical_row rows))"
    by (simp only: array3_T.simps length_map map_map [of np_arcsin] zip3_map)
       (simp add: spherical_row_def Let_def comp_def)
  finally show ?thesis .
qed

lemma spherical_to_cartesian_rows:
  assumes "3 \<le> c"
  shows "spherical_to_cartesian (A2 c rows) = Inr (A2 3 (map cartesian_row rows))"
proof -
  have c: "col (A2 c rows) k = Inr (map (\<lambda>v. v ! k) rows)" if "k < 3" for k
    using that assms by simp
  show ?thesis
    unfolding spherical_to_cartesian_def
    by (simp only: c [of 0] c [of 1] c [of 2] bindE_def sum.case Let_def map_map comp_def
        map2_same array3_T.simps length_map zip3_same)
       (simp add: cartesian_row_def Let_def)
qed

lemma celestial_to_cartesian_rows:
  assumes "3 \<le> c"
  shows "celestial_to_cartesian (A2 c rows) = Inr (A2 3 (map cartesian_row rows))"
  unfolding celestial_to_cartesian_def
  by (simp add: spherical_to_cartesian_rows [OF assms])

lemma cartesian_to_celestial_rows:
  assumes "rows \<noteq> []" and "3 \<le> c" and "list_all (\<lambda>row. length row = c) rows"
  shows "cartesian_to_celestial (A2 c rows) = Inr (A2 3 (map celestial_row rows))"
proof -
  have c: "col (A2 3 (map spherical_row rows)) k = Inr (map (\<lambda>v. spherical_row v ! k) rows)"
    if "k < 3" for k
    using that by (simp add: comp_def)
  show ?thesis
    unfolding cartesian_to_celestial_def
    by (simp only: atleast_2d.simps cartesian_to_spherical_rows [OF assms] bindE_def sum.case
        c [of 0] c [of 1] c [of 2] array3_T.simps length_map zip3_same)
       (simp add: celestial_row_def Let_def)
qed

lemma Jacobian_in_celestial_rows:
  assumes "3 \<le> c"
  shows "Jacobian_in_celestial (A2 c rows) = Inr (A1 (map jacobian_row rows))"
proof -
  have c: "col (A2 c rows) k = Inr (map (\<lambda>v. v ! k) rows)" if "k < 3" for k
    using that assms by simp
  show ?thesis
    unfolding Jacobian_in_celestial_def
    by (simp only: c [of 1] c [of 2] bindE_def sum.case map_map comp_def map2_same)
       (simp add: jacobian_row_def)
qed

lemma Jacobian_rows:
  assumes "rows \<noteq> []" and "3 \<le> c" and "list_all (\<lambda>row. length row = c) rows"
  shows "Jacobian (A2 c rows) = Inr (A1 (map (\<lambda>v. jacobian_row (celestial_row v)) rows))"
  unfolding Jacobian_def
  by (simp add: cartesian_to_celestial_rows [OF assms] bindE_def Jacobian_in_celestial_rows
      comp_def)

lemma inv_Jacobian_rows:
  assumes "3 \<le> c"
  shows "inv_Jacobian (A2 c rows)
    = Inr (A1 (map (\<lambda>v. np_div (Fin 1) (jacobian_row v)) rows))"
  unfolding inv_Jacobian_def
  by (simp add: Jacobian_in_celestial_rows [OF assms] bindE_def comp_def)

section \<open>Batches of finite non-zero vectors\<close>

text \<open>
  On rows of real numbers with a non-zero norm the row functions are the real
  formulas, with no special value.
\<close>

lemma batch3_wellformed: "list_all (\<lambda>row. length row = 3) (map vec3 vs)"
  by (simp add: list_all_iff vec3_def split_def)

lemma spherical_row_vec3:
  assumes "v \<noteq> (0, 0, 0)"
  shows "spherical_row (vec3 v) = vec3 (spec_spherical_row v)"
proof -
  obtain x y z where v: "v = (x, y, z)" by (cases v) auto
  have nz: "(x, y, z) \<noteq> (0, 0, 0)" using assms v by simp
  have r: "0 < sqrt (x * x + y * y + z * z)" by (rule norm_pos [OF nz])
  have u: "\<bar>z / sqrt (x * x + y * y + z * z)\<bar> \<le> 1" by (rule unit_z_range [OF nz])
  show ?thesis
    using u
    by (simp add: v spherical_row_def spec_spherical_row_def vec3_def linalg_norm3
        np_div_Fin [OF r] np_arctan2_Fin np_add_Fin Let_def)
qed

lemma celestial_row_vec3:
  assumes "v \<noteq> (0, 0, 0)"
  shows "celestial_row (vec3 v) = vec3 (spec_celestial_row v)"
  unfolding celestial_row_def spherical_row_vec3 [OF assms]
  by (simp add: spec_celestial_row_def vec3_def split_def Let_def)

lemma cartesian_to_spherical_batch3:
  assumes "vs \<noteq> []" and "\<forall>v\<in>set vs. v \<noteq> (0, 0, 0)"
  shows "cartesian_to_spherical (batch3 vs) = Inr (batch3 (map spec_spherical_row vs))"
proof -
  have "cartesian_to_spherical (A2 3 (map vec3 vs))
      = Inr (A2 3 (map spherical_row (map vec3 vs)))"
    using assms(1) by (intro cartesian_to_spherical_rows batch3_wellformed) simp_all
  moreover have "map spherical_row (map vec3 vs) = map vec3 (map spec_spherical_row vs)"
    using assms(2) by (simp add: spherical_row_vec3)
  ultimately show ?thesis by (simp add: batch3_def)
qed



lemma jacobian_row_vec3:
  "number (jacobian_row (vec3 (ra, dec, D))) = Some (D * D * cos dec)"
  by (simp add: jacobian_row_def vec3_def np_mul_self number_mul_Fin)

lemma inv_jacobian_row_vec3:
  "np_div (Fin 1) (jacobian_row (vec3 (ra, dec, D))) =
     (if D = 0 \<or> cos dec = 0 then (if cos dec < 0 then NInf else PInf)
      else Fin (1 / (D * D * cos dec)))"
  by (auto simp: jacobian_row_def vec3_def np_mul_def np_div_def signed_zero_def
      signed_inf_def)

lemma jacobian_celestial_row_vec3:
  assumes "v \<noteq> (0, 0, 0)"
  shows "jacobian_row (celestial_row (vec3 v))
    = (case spec_celestial_row v of (ra, dec, D) \<Rightarrow> Fin (D * D * cos dec))"
proof -
  obtain x y z where v: "v = (x, y, z)" by (cases v) auto
  obtain r theta phi where s: "spec_spherical_row (x, y, z) = (r, theta, phi)"
    by (cases "spec_spherical_row (x, y, z)") auto
  have nz: "(x, y, z) \<noteq> (0, 0, 0)" using assms v by simp
  note rt = roundtrip_real [OF nz s]
  have "np_mul (Fin (r * r)) (Fin (cos theta)) = Fin (r * r * cos theta)"
    using rt(4,5) by (intro np_mul_Fin) auto
  then show ?thesis
    unfolding celestial_row_vec3 [OF assms]
    by (simp add: v s spec_celestial_row_def jacobian_row_def vec3_def np_mul_self)
qed




section \<open>Single inputs, the empty batch and the number of columns\<close>



lemma c2s_empty: "cartesian_to_spherical (A2 3 []) = Inl IndexError"
  by (simp add: cartesian_to_spherical_def bindE_def)

lemma c2cel_empty: "cartesian_to_celestial (A2 3 []) = Inl IndexError"
  by (simp add: cartesian_to_celestial_def cartesian_to_spherical_def bindE_def)

lemma Jacobian_empty: "Jacobian (A2 3 []) = Inl IndexError"
  by (simp add: Jacobian_def cartesian_to_celestial_def cartesian_to_spherical_def bindE_def)

lemma cartesian_to_spherical_1d: "cartesian_to_spherical (A1 v) = Inl IndexError"
  by (simp add: cartesian_to_spherical_def bindE_def)

lemma spherical_to_cartesian_1d: "spherical_to_cartesian (A1 v) = Inl IndexError"
  by (simp add: spherical_to_cartesian_def bindE_def)

lemma Jacobian_in_celestial_1d: "Jacobian_in_celestial (A1 v) = Inl IndexError"
  by (simp add: Jacobian_in_celestial_def bindE_def)

lemma rowwise2I:
  assumes "\<And>rs. rs \<noteq> [] \<Longrightarrow> list_all (\<lambda>row. length row = 3) rs
      \<Longrightarrow> f (A2 3 rs) = Inr (A2 3 (map g rs))"
    and "list_all (\<lambda>row. length row = 3) rows" and "i < length rows"
  shows "rowwise2 f rows i"
proof -
  have ne: "rows \<noteq> []" using assms(3) by auto
  have wf1: "list_all (\<lambda>row. length row = 3) [rows ! i]"
    using assms(2,3) by (simp add: list_all_length)
  have "f (A2 3 rows) = Inr (A2 3 (map g rows))" by (rule assms(1) [OF ne assms(2)])
  moreover have "f (A2 3 [rows ! i]) = Inr (A2 3 (map g [rows ! i]))"
    by (rule assms(1) [OF _ wf1]) simp
  ultimately show ?thesis
    unfolding rowwise2_def using assms(3) by (intro exI [of _ "map g rows"]) simp
qed

lemma rowwise1I:
  assumes "\<And>rs. rs \<noteq> [] \<Longrightarrow> list_all (\<lambda>row. length row = 3) rs
      \<Longrightarrow> f (A2 3 rs) = Inr (A1 (map g rs))"
    and "list_all (\<lambda>row. length row = 3) rows" and "i < length rows"
  shows "rowwise1 f rows i"
proof -
  have ne: "rows \<noteq> []" using assms(3) by auto
  have wf1: "list_all (\<lambda>row. length row = 3) [rows ! i]"
    using assms(2,3) by (simp add: list_all_length)
  have "f (A2 3 rows) = Inr (A1 (map g rows))" by (rule assms(1) [OF ne assms(2)])
  moreover have "f (A2 3 [rows ! i]) = Inr (A1 (map g [rows ! i]))"
    by (rule assms(1) [OF _ wf1]) simp
  ultimately show ?thesis
    unfolding rowwise1_def using assms(3) by (intro exI [of _ "map g rows"]) simp
qed

lemma s2c_empty: "spherical_to_cartesian (A2 3 []) = Inr (A2 3 [])"
  by (simp add: spherical_to_cartesian_rows)

lemma cel2c_empty: "celestial_to_cartesian (A2 3 []) = Inr (A2 3 [])"
  by (simp add: celestial_to_cartesian_rows)

lemma Jacobian_in_celestial_empty: "Jacobian_in_celestial (A2 3 []) = Inr (A1 [])"
  by (simp add: Jacobian_in_celestial_rows)

lemma inv_Jacobian_empty: "inv_Jacobian (A2 3 []) = Inr (A1 [])"
  by (simp add: inv_Jacobian_rows)

lemma cartesian_to_spherical_few_columns:
  assumes "n < 3"
  shows "cartesian_to_spherical (A2 n rows) = Inl IndexError"
  using assms by (cases "rows = []") (simp_all add: cartesian_to_spherical_def bindE_def)

lemma spherical_to_cartesian_few_columns:
  assumes "n < 3"
  shows "spherical_to_cartesian (A2 n rows) = Inl IndexError"
  using assms by (cases "n = 2") (auto simp: spherical_to_cartesian_def bindE_def)

lemma c2s_four_columns:
  "cartesian_to_spherical (A2 4 [[Fin 0, Fin 0, Fin 1, Fin 0]])
     = Inr (A2 3 [[Fin 1, Fin (pi / 2), Fin 0]])"
proof -
  have n: "linalg_norm [Fin 0, Fin 0, Fin 1, Fin 0] = Fin 1"
    by (simp add: linalg_norm_def np_mul_self np_add_Fin)
  have "cartesian_to_spherical (A2 4 [[Fin 0, Fin 0, Fin 1, Fin 0]])
      = Inr (A2 3 (map spherical_row [[Fin 0, Fin 0, Fin 1, Fin 0]]))"
    by (rule cartesian_to_spherical_rows) simp_all
  also have "\<dots> = Inr (A2 3 [[Fin 1, Fin (pi / 2), Fin 0]])"
    by (simp add: spherical_row_def n np_div_def signed_zero_def np_arctan2_def)
  finally show ?thesis .
qed

lemma s2c_four_columns:
  "spherical_to_cartesian (A2 4 [[Fin 0, Fin 0, Fin 1, Fin 0]])
     = Inr (A2 3 [[Fin 0, Fin 1, Fin 0]])"
  by (simp add: spherical_to_cartesian_rows cartesian_row_def np_mul_def signed_zero_def)

lemma Jacobian_batch3:
  assumes "vs \<noteq> []" and "\<forall>v\<in>set vs. v \<noteq> (0, 0, 0)"
  shows "Jacobian (batch3 vs) = Inr (A1 (map (\<lambda>v. case spec_celestial_row v of
          (ra, dec, D) \<Rightarrow> Fin (D * D * cos dec)) vs))"
proof -
  have "Jacobian (A2 3 (map vec3 vs))
      = Inr (A1 (map (\<lambda>v. jacobian_row (celestial_row v)) (map vec3 vs)))"
    using assms(1) by (intro Jacobian_rows batch3_wellformed) simp_all
  moreover have "map (\<lambda>v. jacobian_row (celestial_row v)) (map vec3 vs)
      = map (\<lambda>v. case spec_celestial_row v of (ra, dec, D) \<Rightarrow> Fin (D * D * cos dec)) vs"
    using assms(2) by (simp add: jacobian_celestial_row_vec3)
  ultimately show ?thesis by (simp add: batch3_def)
qed

text \<open>
  Outside the range of a declination the determinant can be the negative zero, and
  its reciprocal \<open>-inf\<close>.
\<close>

lemma inv_Jacobian_negative_cosine:
  "inv_Jacobian (A2 3 [[Fin 0, Fin pi, Fin 0]]) = Inr (A1 [NInf])"
  by (simp add: inv_Jacobian_rows jacobian_row_def np_mul_def np_div_def signed_zero_def
      signed_inf_def)

text \<open>
  On a batch with at least one row, row \<open>i\<close> of the result of each function is its
  result on row \<open>i\<close> alone.
\<close>

lemma rowwise_on_batch:
  assumes "wellformed (A2 3 rows)" and "i < length rows"
  shows "rowwise2 cartesian_to_spherical rows i \<and> rowwise2 spherical_to_cartesian rows i
    \<and> rowwise2 celestial_to_cartesian rows i \<and> rowwise2 cartesian_to_celestial rows i
    \<and> rowwise1 Jacobian_in_celestial rows i \<and> rowwise1 Jacobian rows i
    \<and> rowwise1 inv_Jacobian rows i"
proof -
  have wf: "list_all (\<lambda>row. length row = 3) rows" using assms(1) by simp
  note assms = wf assms(2)
  have "rowwise2 cartesian_to_spherical rows i"
    by (rule rowwise2I [OF _ assms]) (rule cartesian_to_spherical_rows, simp_all)
  moreover have "rowwise2 spherical_to_cartesian rows i"
    by (rule rowwise2I [OF _ assms]) (rule spherical_to_cartesian_rows, simp)
  moreover have "rowwise2 celestial_to_cartesian rows i"
    by (rule rowwise2I [OF _ assms]) (rule celestial_to_cartesian_rows, simp)
  moreover have "rowwise2 cartesian_to_celestial rows i"
    by (rule rowwise2I [OF _ assms]) (rule cartesian_to_celestial_rows, simp_all)
  moreover have "rowwise1 Jacobian_in_celestial rows i"
    by (rule rowwise1I [OF _ assms]) (rule Jacobian_in_celestial_rows, simp)
  moreover have "rowwise1 Jacobian rows i"
    by (rule rowwise1I [OF _ assms]) (rule Jacobian_rows, simp_all)
  moreover have "rowwise1 inv_Jacobian rows i"
    by (rule rowwise1I [OF _ assms]) (rule inv_Jacobian_rows, simp)
  ultimately show ?thesis by simp
qed

section \<open>The claims\<close>







text \<open>
  Claim C3. For every input of shape \<open>(N, 3)\<close> with rows \<open>[ra, dec, D]\<close>,
  \<^verbatim>\<open>Jacobian_in_celestial\<close> returns one value for each row, the number
  \<open>D\<^sup>2 cos(dec)\<close>, computed from column 2 and column 1; the row \<open>[0, 0, 2]\<close> gives 4
  and the row \<open>[0, \<pi>/3, 2]\<close> gives 2.
\<close>

theorem Jacobian_in_celestial_value:
  "(\<exists>js. Jacobian_in_celestial (batch3 cs) = Inr (A1 js)
      \<and> map number js = map (\<lambda>(ra, dec, D). Some (D * D * cos dec)) cs)
   \<and> Jacobian_in_celestial (A2 3 [[Fin 0, Fin 0, Fin 2]]) = Inr (A1 [Fin 4])
   \<and> Jacobian_in_celestial (A2 3 [[Fin 0, Fin (pi / 3), Fin 2]]) = Inr (A1 [Fin 2])"
proof -
  have "number (jacobian_row (vec3 c)) = (case c of (ra, dec, D) \<Rightarrow> Some (D * D * cos dec))"
    for c
    by (cases c) (simp add: jacobian_row_vec3)
  then have "map number (map jacobian_row (map vec3 cs))
      = map (\<lambda>(ra, dec, D). Some (D * D * cos dec)) cs"
    by (simp add: comp_def)
  then have "\<exists>js. Jacobian_in_celestial (batch3 cs) = Inr (A1 js)
      \<and> map number js = map (\<lambda>(ra, dec, D). Some (D * D * cos dec)) cs"
    by (simp add: batch3_def Jacobian_in_celestial_rows)
  moreover have "Jacobian_in_celestial (A2 3 [[Fin 0, Fin 0, Fin 2]]) = Inr (A1 [Fin 4])"
    by (simp add: Jacobian_in_celestial_rows jacobian_row_def np_mul_def)
  moreover have "Jacobian_in_celestial (A2 3 [[Fin 0, Fin (pi / 3), Fin 2]]) = Inr (A1 [Fin 2])"
    by (simp add: Jacobian_in_celestial_rows jacobian_row_def np_mul_def cos_60)
  ultimately show ?thesis by blast
qed

text \<open>
  Claim C4. For every celestial input with rows \<open>[ra, dec, D]\<close> of finite numbers,
  the declination in \<open>[-\<pi>/2, \<pi>/2]\<close>, \<^verbatim>\<open>inv_Jacobian\<close> raises no exception and returns
  for each row the reciprocal \<open>1/(D\<^sup>2 cos(dec))\<close>; where \<open>D = 0\<close> the determinant is
  the positive zero and the result for that row is \<open>+inf\<close>. A single vector is
  treated as a batch of one row.
\<close>

theorem inv_Jacobian_reciprocal:
  assumes "\<forall>(ra, dec, D)\<in>set cs. - (pi / 2) \<le> dec \<and> dec \<le> pi / 2"
  shows "inv_Jacobian (batch3 cs) =
      Inr (A1 (map (\<lambda>(ra, dec, D).
        if D = 0 \<or> cos dec = 0 then PInf else Fin (1 / (D * D * cos dec))) cs))
    \<and> inv_Jacobian (A1 [Fin a, Fin d, Fin r]) = inv_Jacobian (batch3 [(a, d, r)])"
proof -
  have "np_div (Fin 1) (jacobian_row (vec3 c)) =
      (case c of (ra, dec, D) \<Rightarrow>
         if D = 0 \<or> cos dec = 0 then PInf else Fin (1 / (D * D * cos dec)))"
    if "c \<in> set cs" for c
  proof -
    obtain ra dec D where c: "c = (ra, dec, D)" by (cases c) auto
    have "- (pi / 2) \<le> dec" "dec \<le> pi / 2" using assms that c by auto
    then have "0 \<le> cos dec" by (rule cos_ge_zero)
    then show ?thesis by (simp add: c inv_jacobian_row_vec3)
  qed
  then have 1: "inv_Jacobian (batch3 cs) =
      Inr (A1 (map (\<lambda>(ra, dec, D).
        if D = 0 \<or> cos dec = 0 then PInf else Fin (1 / (D * D * cos dec))) cs))"
    by (simp add: batch3_def inv_Jacobian_rows)
  have 2: "inv_Jacobian (A1 [Fin a, Fin d, Fin r]) = inv_Jacobian (batch3 [(a, d, r)])"
    by (simp only: inv_Jacobian_def atleast_2d_3 atleast_2d.simps(3))
      (simp add: batch3_def vec3_def)
  show ?thesis by (intro conjI) (rule 1, rule 2)
qed

theorem inv_Jacobian_reciprocal_witness:
  "inv_Jacobian (batch3 [(0, 0, 0), (0, 0, 2)]) = Inr (A1 [PInf, Fin (1 / 4)])"
  using inv_Jacobian_reciprocal [of "[(0, 0, 0), (0, 0, 2)]"] by simp

text \<open>
  Claim C5 holds on every batch with a row (lemma \<open>cartesian_to_spherical_batch3\<close>)
  and fails on the input of shape \<open>(0, 3)\<close>, where the claim has an array of shape
  \<open>(0, 3)\<close>: the norms are computed on the whole array, but the unit vectors are
  rebuilt from a Python list, empty here, into a 1-dimensional array, and reading
  its column 2 raises IndexError. \<^verbatim>\<open>spherical_to_cartesian\<close> returns the empty array
  on the same input.
\<close>

theorem cartesian_to_spherical_empty_batch:
  "cartesian_to_spherical (batch3 []) = Inl IndexError
   \<and> norm_last_axis (batch3 []) = Inr (A1 [])
   \<and> unit_vectors (batch3 []) = Inr (A1 [])
   \<and> col (A1 []) 2 = Inl IndexError
   \<and> spherical_to_cartesian (batch3 []) = Inr (A2 3 [])"
  by (simp add: batch3_def c2s_empty s2c_empty)

text \<open>
  Claim C6, the ranges of the angles that \<^verbatim>\<open>cartesian_to_spherical\<close> returns, is a
  statement about the doubles that the code computes: whether \<open>unit.z\<close> stays within
  \<open>[-1, 1]\<close> and whether a negative angle plus \<open>2\<pi>\<close> stays below \<open>2\<pi>\<close> is decided by
  rounding and underflow, which the model leaves out. It is not stated here. On
  real numbers the angles of a non-zero vector lie in the ranges (lemma
  \<open>spec_spherical_row_bounds\<close>).
\<close>

text \<open>
  Claim C7 holds on every input with a row (lemmas \<open>Jacobian_rows\<close> and
  \<open>Jacobian_batch3\<close>) and fails on the input of shape \<open>(0, 3)\<close>, where the claim has an
  array of no value: \<^verbatim>\<open>Jacobian\<close> raises the IndexError of \<^verbatim>\<open>cartesian_to_spherical\<close>,
  while \<^verbatim>\<open>Jacobian_in_celestial\<close> and \<^verbatim>\<open>inv_Jacobian\<close> return the empty array.
\<close>

theorem Jacobian_empty_batch:
  "Jacobian (A2 3 []) = Inl IndexError
   \<and> cartesian_to_celestial (A2 3 []) = Inl IndexError
   \<and> Jacobian_in_celestial (A2 3 []) = Inr (A1 [])
   \<and> inv_Jacobian (A2 3 []) = Inr (A1 [])"
  by (simp add: Jacobian_empty c2cel_empty Jacobian_in_celestial_empty inv_Jacobian_empty)

text \<open>
  Claim C8. \<^verbatim>\<open>cartesian_to_spherical\<close> on the row \<open>[0, 0, 1]\<close> returns \<open>r = 1\<close>,
  \<open>theta = \<pi>/2\<close> and \<open>phi = 0\<close>: the unit vector has \<open>unit.x = 0\<close> and \<open>unit.y = 0\<close>,
  and \<^verbatim>\<open>arctan2(0, 0)\<close> is 0.
\<close>

theorem spherical_of_z_axis:
  "cartesian_to_spherical (A2 3 [[Fin 0, Fin 0, Fin 1]])
      = Inr (A2 3 [[Fin 1, Fin (pi / 2), Fin 0]])
   \<and> unit_vectors (A2 3 [[Fin 0, Fin 0, Fin 1]]) = Inr (A2 3 [[Fin 0, Fin 0, Fin 1]])
   \<and> np_arctan2 (Fin 0) (Fin 0) = Fin 0"
proof -
  have "cartesian_to_spherical (batch3 [(0, 0, 1)])
      = Inr (batch3 (map spec_spherical_row [(0, 0, 1)]))"
    by (rule cartesian_to_spherical_batch3) simp_all
  then have "cartesian_to_spherical (A2 3 [[Fin 0, Fin 0, Fin 1]])
      = Inr (A2 3 [[Fin 1, Fin (pi / 2), Fin 0]])"
    by (simp add: batch3_def vec3_def spec_spherical_row_001)
  moreover have "unit_vectors (A2 3 [[Fin 0, Fin 0, Fin 1]])
      = Inr (A2 3 [[Fin 0, Fin 0, Fin 1]])"
    by (simp add: linalg_norm3 np_div_def signed_zero_def)
  moreover have "np_arctan2 (Fin 0) (Fin 0) = Fin 0"
    by (simp add: np_arctan2_def)
  ultimately show ?thesis by simp
qed

text \<open>
  Claim C9 holds on every batch with a row (lemma \<open>rowwise_on_batch\<close>) and fails on
  the batch of shape \<open>(0, 3)\<close>: applied to no row and concatenated, every function
  gives the empty result, and so do four of them on the whole batch, but
  \<^verbatim>\<open>cartesian_to_spherical\<close>, \<^verbatim>\<open>cartesian_to_celestial\<close> and \<^verbatim>\<open>Jacobian\<close> raise IndexError.
\<close>

theorem batch_invariance_empty_batch:
  "cartesian_to_spherical (A2 3 []) = Inl IndexError
   \<and> cartesian_to_celestial (A2 3 []) = Inl IndexError
   \<and> Jacobian (A2 3 []) = Inl IndexError
   \<and> spherical_to_cartesian (A2 3 []) = Inr (A2 3 [])
   \<and> celestial_to_cartesian (A2 3 []) = Inr (A2 3 [])
   \<and> Jacobian_in_celestial (A2 3 []) = Inr (A1 [])
   \<and> inv_Jacobian (A2 3 []) = Inr (A1 [])"
  by (simp add: c2s_empty c2cel_empty Jacobian_empty s2c_empty cel2c_empty
      Jacobian_in_celestial_empty inv_Jacobian_empty)

text \<open>
  Claim C10, as amended. \<^verbatim>\<open>celestial_to_cartesian\<close>, \<^verbatim>\<open>cartesian_to_celestial\<close>,
  \<^verbatim>\<open>Jacobian\<close> and \<^verbatim>\<open>inv_Jacobian\<close> treat a single vector of length 3 as the batch of
  shape \<open>(1, 3)\<close> with that row, and return a result for it. \<^verbatim>\<open>cartesian_to_spherical\<close>
  and \<^verbatim>\<open>spherical_to_cartesian\<close> (and \<^verbatim>\<open>Jacobian_in_celestial\<close>) do not: on every
  1-dimensional input their column index raises IndexError. On 2-dimensional input
  they are not bound to 3 columns: they raise IndexError on fewer than 3 columns, and
  return an array of one row for each row on 3 columns or more,
  \<^verbatim>\<open>cartesian_to_spherical\<close> when the input has a row.
\<close>

theorem promotion_to_batch:
  "(cartesian_to_spherical (A1 v) = Inl IndexError
     \<and> spherical_to_cartesian (A1 v) = Inl IndexError
     \<and> Jacobian_in_celestial (A1 v) = Inl IndexError)
   \<and> (celestial_to_cartesian (A1 [a, b, c]) = celestial_to_cartesian (A2 3 [[a, b, c]])
     \<and> cartesian_to_celestial (A1 [a, b, c]) = cartesian_to_celestial (A2 3 [[a, b, c]])
     \<and> Jacobian (A1 [a, b, c]) = Jacobian (A2 3 [[a, b, c]])
     \<and> inv_Jacobian (A1 [a, b, c]) = inv_Jacobian (A2 3 [[a, b, c]]))
   \<and> ((\<exists>row. celestial_to_cartesian (A1 [a, b, c]) = Inr (A2 3 [row]))
     \<and> (\<exists>row. cartesian_to_celestial (A1 [a, b, c]) = Inr (A2 3 [row]))
     \<and> (\<exists>j. Jacobian (A1 [a, b, c]) = Inr (A1 [j]))
     \<and> (\<exists>j. inv_Jacobian (A1 [a, b, c]) = Inr (A1 [j])))
   \<and> (n < 3 \<longrightarrow> cartesian_to_spherical (A2 n rows) = Inl IndexError
                \<and> spherical_to_cartesian (A2 n rows) = Inl IndexError)
   \<and> (3 \<le> n \<longrightarrow> (\<exists>out. spherical_to_cartesian (A2 n rows) = Inr (A2 3 out)
                      \<and> length out = length rows))
   \<and> (3 \<le> n \<and> rows \<noteq> [] \<and> wellformed (A2 n rows) \<longrightarrow>
        (\<exists>out. cartesian_to_spherical (A2 n rows) = Inr (A2 3 out)
           \<and> length out = length rows))"
proof -
  have wf: "list_all (\<lambda>row. length row = 3) [[a, b, c]]" by simp
  have p1: "celestial_to_cartesian (A1 [a, b, c]) = celestial_to_cartesian (A2 3 [[a, b, c]])"
    by (simp only: celestial_to_cartesian_def atleast_2d_3 atleast_2d.simps(3))
  have p2: "cartesian_to_celestial (A1 [a, b, c]) = cartesian_to_celestial (A2 3 [[a, b, c]])"
    by (simp only: cartesian_to_celestial_def atleast_2d_3 atleast_2d.simps(3))
  have p3: "Jacobian (A1 [a, b, c]) = Jacobian (A2 3 [[a, b, c]])"
    by (simp only: Jacobian_def atleast_2d_3 atleast_2d.simps(3))
  have p4: "inv_Jacobian (A1 [a, b, c]) = inv_Jacobian (A2 3 [[a, b, c]])"
    by (simp only: inv_Jacobian_def atleast_2d_3 atleast_2d.simps(3))
  have r1: "\<exists>row. celestial_to_cartesian (A1 [a, b, c]) = Inr (A2 3 [row])"
    unfolding p1 by (simp add: celestial_to_cartesian_rows)
  have r2: "\<exists>row. cartesian_to_celestial (A1 [a, b, c]) = Inr (A2 3 [row])"
    unfolding p2 by (subst cartesian_to_celestial_rows [OF _ _ wf]) simp_all
  have r3: "\<exists>j. Jacobian (A1 [a, b, c]) = Inr (A1 [j])"
    unfolding p3 by (subst Jacobian_rows [OF _ _ wf]) simp_all
  have r4: "\<exists>j. inv_Jacobian (A1 [a, b, c]) = Inr (A1 [j])"
    unfolding p4 by (simp add: inv_Jacobian_rows)
  have d1: "n < 3 \<longrightarrow> cartesian_to_spherical (A2 n rows) = Inl IndexError
                \<and> spherical_to_cartesian (A2 n rows) = Inl IndexError"
    by (simp add: cartesian_to_spherical_few_columns spherical_to_cartesian_few_columns)
  have d2: "3 \<le> n \<longrightarrow> (\<exists>out. spherical_to_cartesian (A2 n rows) = Inr (A2 3 out)
                      \<and> length out = length rows)"
    by (simp add: spherical_to_cartesian_rows)
  have d3: "3 \<le> n \<and> rows \<noteq> [] \<and> wellformed (A2 n rows) \<longrightarrow>
        (\<exists>out. cartesian_to_spherical (A2 n rows) = Inr (A2 3 out)
           \<and> length out = length rows)"
    by (simp add: cartesian_to_spherical_rows)
  show ?thesis
    using p1 p2 p3 p4 r1 r2 r3 r4 d1 d2 d3
    by (simp only: cartesian_to_spherical_1d spherical_to_cartesian_1d
        Jacobian_in_celestial_1d simp_thms)
qed

theorem promotion_to_batch_witness:
  "cartesian_to_spherical (A2 2 [[Fin 0, Fin 1]]) = Inl IndexError
   \<and> spherical_to_cartesian (A2 2 [[Fin 0, Fin 1]]) = Inl IndexError
   \<and> (\<exists>out. spherical_to_cartesian (A2 5 []) = Inr (A2 3 out) \<and> length out = 0)
   \<and> (\<exists>out. cartesian_to_spherical (A2 3 [[Fin 0, Fin 0, Fin 1]]) = Inr (A2 3 out)
         \<and> length out = 1)"
proof -
  from promotion_to_batch [where n = 2 and rows = "[[Fin 0, Fin 1]]"]
  have 1: "cartesian_to_spherical (A2 2 [[Fin 0, Fin 1]]) = Inl IndexError
      \<and> spherical_to_cartesian (A2 2 [[Fin 0, Fin 1]]) = Inl IndexError"
    by simp
  from promotion_to_batch [where n = 5 and rows = "[]"]
  have 2: "\<exists>out. spherical_to_cartesian (A2 5 []) = Inr (A2 3 out) \<and> length out = 0"
    by simp
  from promotion_to_batch [where n = 3 and rows = "[[Fin 0, Fin 0, Fin 1]]"]
  have 3: "\<exists>out. cartesian_to_spherical (A2 3 [[Fin 0, Fin 0, Fin 1]]) = Inr (A2 3 out)
      \<and> length out = 1"
    by simp
  from 1 2 3 show ?thesis by blast
qed

text \<open>
  Claim C10 as written fails: the two conversions are defined on 2-dimensional
  input that is not of shape \<open>(N, 3)\<close>. On one row of 4 columns both return a result;
  \<^verbatim>\<open>cartesian_to_spherical\<close> takes the norm of all 4 columns.
\<close>

theorem promotion_columns_counterexample:
  "cartesian_to_spherical (A2 4 [[Fin 0, Fin 0, Fin 1, Fin 0]])
      = Inr (A2 3 [[Fin 1, Fin (pi / 2), Fin 0]])
   \<and> spherical_to_cartesian (A2 4 [[Fin 0, Fin 0, Fin 1, Fin 0]])
      = Inr (A2 3 [[Fin 0, Fin 1, Fin 0]])"
  by (simp only: c2s_four_columns s2c_four_columns simp_thms)

end
